theory Spec2Isabelle
  imports Main "HOL-Library.Word" "HOL-Library.Sublist"
begin

section \<open>Strings of the platform\<close>

text \<open>
  A JavaScript string is a sequence of 16-bit code units. The texts of \<^verbatim>\<open>src/index.ts\<close>
  are ASCII, where one character is one code unit; \<open>utf16\<close> embeds such a literal.
\<close>

type_synonym code_unit = "16 word"
type_synonym jsstring = "code_unit list"

abbreviation cu :: "char \<Rightarrow> code_unit" where
  "cu c \<equiv> of_char c"

definition utf16 :: "string \<Rightarrow> jsstring" where
  "utf16 s = map cu s"

abbreviation QUOTE :: code_unit where "QUOTE \<equiv> 0x22"
abbreviation BACKSLASH :: code_unit where "BACKSLASH \<equiv> 0x5C"

section \<open>The built-in \<^verbatim>\<open>JSON.parse\<close>\<close>

text \<open>
  \<^verbatim>\<open>safeJsonParse\<close> calls the built-in \<^verbatim>\<open>JSON.parse(text)\<close> (no reviver). It is
  modelled after the JSON grammar of ECMA-262: a lexer from code units to tokens and a
  pushdown recogniser from tokens to a value. A number is kept as the literal that was
  read (its rounding to a binary64 value is not modelled); the text of the
  \<^verbatim>\<open>SyntaxError\<close> is implementation-defined and not modelled.
\<close>

datatype json =
    JNull
  | JBool bool
  | JNum jsstring
  | JStr jsstring
  | JArr "json list"
  | JObj "(jsstring \<times> json) list"

datatype SyntaxError = SyntaxError

datatype token =
    LBrace | RBrace | LBracket | RBracket | Colon | Comma
  | TString jsstring | TNumber jsstring | TTrue | TFalse | TNull

definition is_ws :: "code_unit \<Rightarrow> bool" where
  "is_ws c = (c = 0x09 \<or> c = 0x0A \<or> c = 0x0D \<or> c = 0x20)"

definition is_digit :: "code_unit \<Rightarrow> bool" where
  "is_digit c = (cu CHR ''0'' \<le> c \<and> c \<le> cu CHR ''9'')"

definition hex_value :: "code_unit \<Rightarrow> code_unit option" where
  "hex_value c =
     (if cu CHR ''0'' \<le> c \<and> c \<le> cu CHR ''9'' then Some (c - cu CHR ''0'')
      else if cu CHR ''a'' \<le> c \<and> c \<le> cu CHR ''f'' then Some (c - cu CHR ''a'' + 10)
      else if cu CHR ''A'' \<le> c \<and> c \<le> cu CHR ''F'' then Some (c - cu CHR ''A'' + 10)
      else None)"

text \<open>The single-character escapes of a JSON string: the character after the backslash.\<close>

definition escape_char :: "code_unit \<Rightarrow> code_unit option" where
  "escape_char e =
     (if e = QUOTE then Some QUOTE
      else if e = BACKSLASH then Some BACKSLASH
      else if e = cu CHR ''/'' then Some (cu CHR ''/'')
      else if e = cu CHR ''b'' then Some 0x08
      else if e = cu CHR ''f'' then Some 0x0C
      else if e = cu CHR ''n'' then Some 0x0A
      else if e = cu CHR ''r'' then Some 0x0D
      else if e = cu CHR ''t'' then Some 0x09
      else None)"

definition prepend :: "code_unit \<Rightarrow> (jsstring \<times> jsstring) option \<Rightarrow> (jsstring \<times> jsstring) option" where
  "prepend c r = (case r of None \<Rightarrow> None | Some (s, rest) \<Rightarrow> Some (c # s, rest))"

text \<open>
  \<open>scan_string cs\<close> reads a string after its opening quote: the decoded value and the
  text after the closing quote. A code unit below 0x20 must be escaped.
\<close>

fun scan_string :: "jsstring \<Rightarrow> (jsstring \<times> jsstring) option" where
  "scan_string [] = None"
| "scan_string (c # cs) =
     (if c = QUOTE then Some ([], cs)
      else if c = BACKSLASH then
        (case cs of
           [] \<Rightarrow> None
         | e # cs1 \<Rightarrow>
             (if e = cu CHR ''u'' then
                (case cs1 of
                   h1 # h2 # h3 # h4 # cs2 \<Rightarrow>
                     (case (hex_value h1, hex_value h2, hex_value h3, hex_value h4) of
                        (Some a, Some b, Some c, Some d) \<Rightarrow>
                          prepend (4096 * a + 256 * b + 16 * c + d) (scan_string cs2)
                      | _ \<Rightarrow> None)
                 | _ \<Rightarrow> None)
              else
                (case escape_char e of
                   None \<Rightarrow> None
                 | Some x \<Rightarrow> prepend x (scan_string cs1))))
      else if c < 0x20 then None
      else prepend c (scan_string cs))"

text \<open>
  A number: an optional minus, an integer part without a leading zero, an optional
  fraction, an optional exponent. Each scanner returns the text it read and the rest.
\<close>

definition scan_int :: "jsstring \<Rightarrow> (jsstring \<times> jsstring) option" where
  "scan_int cs =
     (case cs of
        [] \<Rightarrow> None
      | d # r \<Rightarrow>
          (if d = cu CHR ''0'' then Some ([d], r)
           else if is_digit d then Some (d # takeWhile is_digit r, dropWhile is_digit r)
           else None))"

definition scan_frac :: "jsstring \<Rightarrow> (jsstring \<times> jsstring) option" where
  "scan_frac cs =
     (case cs of
        [] \<Rightarrow> Some ([], cs)
      | p # r \<Rightarrow>
          (if p = cu CHR ''.'' then
             (if takeWhile is_digit r = [] then None
              else Some (p # takeWhile is_digit r, dropWhile is_digit r))
           else Some ([], cs)))"

definition scan_sign :: "jsstring \<Rightarrow> jsstring \<times> jsstring" where
  "scan_sign cs =
     (case cs of
        [] \<Rightarrow> ([], cs)
      | s # r \<Rightarrow> (if s = cu CHR ''+'' \<or> s = cu CHR ''-'' then ([s], r) else ([], cs)))"

definition scan_exp :: "jsstring \<Rightarrow> (jsstring \<times> jsstring) option" where
  "scan_exp cs =
     (case cs of
        [] \<Rightarrow> Some ([], cs)
      | e # r \<Rightarrow>
          (if e = cu CHR ''e'' \<or> e = cu CHR ''E'' then
             (case scan_sign r of
                (sg, r1) \<Rightarrow>
                  (if takeWhile is_digit r1 = [] then None
                   else Some (e # sg @ takeWhile is_digit r1, dropWhile is_digit r1)))
           else Some ([], cs)))"

definition scan_minus :: "jsstring \<Rightarrow> jsstring \<times> jsstring" where
  "scan_minus cs =
     (case cs of
        [] \<Rightarrow> ([], cs)
      | m # r \<Rightarrow> (if m = cu CHR ''-'' then ([m], r) else ([], cs)))"

definition scan_number :: "jsstring \<Rightarrow> (jsstring \<times> jsstring) option" where
  "scan_number cs =
     (case scan_minus cs of
        (sg, r0) \<Rightarrow>
          (case scan_int r0 of
             None \<Rightarrow> None
           | Some (i, r1) \<Rightarrow>
               (case scan_frac r1 of
                  None \<Rightarrow> None
                | Some (f, r2) \<Rightarrow>
                    (case scan_exp r2 of
                       None \<Rightarrow> None
                     | Some (e, r3) \<Rightarrow> Some (sg @ i @ f @ e, r3)))))"

text \<open>\<open>strip_prefix p cs\<close> is the text after \<open>p\<close> when \<open>cs\<close> starts with \<open>p\<close>.\<close>

fun strip_prefix :: "jsstring \<Rightarrow> jsstring \<Rightarrow> jsstring option" where
  "strip_prefix [] cs = Some cs"
| "strip_prefix (p # ps) [] = None"
| "strip_prefix (p # ps) (c # cs) = (if p = c then strip_prefix ps cs else None)"

definition cons_token :: "token \<Rightarrow> token list option \<Rightarrow> token list option" where
  "cons_token t r = (case r of None \<Rightarrow> None | Some ts \<Rightarrow> Some (t # ts))"

lemma prepend_length:
  "prepend c r = Some (s, rest) \<Longrightarrow> \<exists>s'. r = Some (s', rest)"
  by (auto simp: prepend_def split: option.splits)

lemma scan_string_length:
  "scan_string cs = Some (s, rest) \<Longrightarrow> length rest < length cs"
  apply (induction cs arbitrary: s rest rule: scan_string.induct)
   apply simp
  apply (simp split: if_splits list.splits option.splits prod.splits)
  apply (fastforce dest!: prepend_length)+
  done

lemma scan_int_length:
  "scan_int cs = Some (i, rest) \<Longrightarrow> length rest < length cs"
  by (auto simp: scan_int_def split: list.splits if_splits
      intro: le_imp_less_Suc length_dropWhile_le)

lemma scan_frac_length:
  "scan_frac cs = Some (f, rest) \<Longrightarrow> length rest \<le> length cs"
  by (auto simp: scan_frac_def split: list.splits if_splits
      intro: le_SucI length_dropWhile_le)

lemma scan_sign_length:
  "scan_sign cs = (sg, rest) \<Longrightarrow> length rest \<le> length cs"
  by (auto simp: scan_sign_def split: list.splits if_splits)

lemma scan_exp_length:
  "scan_exp cs = Some (e, rest) \<Longrightarrow> length rest \<le> length cs"
proof -
  assume a: "scan_exp cs = Some (e, rest)"
  show ?thesis
  proof (cases cs)
    case Nil
    with a show ?thesis by (simp add: scan_exp_def)
  next
    case (Cons x r)
    obtain sg r1 where sg: "scan_sign r = (sg, r1)" by (cases "scan_sign r")
    have "length (dropWhile is_digit r1) \<le> length r1" by (rule length_dropWhile_le)
    moreover have "length r1 \<le> length r" using sg by (rule scan_sign_length)
    ultimately have "length (dropWhile is_digit r1) \<le> length cs" using Cons by simp
    with a Cons sg show ?thesis
      by (auto simp: scan_exp_def split: if_splits)
  qed
qed

lemma scan_minus_length:
  "scan_minus cs = (sg, rest) \<Longrightarrow> length rest \<le> length cs"
  by (auto simp: scan_minus_def split: list.splits if_splits)

lemma scan_number_length:
  assumes "scan_number cs = Some (n, rest)"
  shows "length rest < length cs"
proof -
  obtain sg r0 where m: "scan_minus cs = (sg, r0)" by (cases "scan_minus cs")
  from assms m obtain i r1 f r2 e where
    i: "scan_int r0 = Some (i, r1)" and f: "scan_frac r1 = Some (f, r2)" and
    e: "scan_exp r2 = Some (e, rest)"
    by (auto simp: scan_number_def split: option.splits)
  have "length rest \<le> length r2" using e by (rule scan_exp_length)
  also have "\<dots> \<le> length r1" using f by (rule scan_frac_length)
  also have "\<dots> < length r0" using i by (rule scan_int_length)
  also have "\<dots> \<le> length cs" using m by (rule scan_minus_length)
  finally show ?thesis .
qed

lemma strip_prefix_length:
  "strip_prefix p cs = Some rest \<Longrightarrow> length rest + length p = length cs"
  by (induction p cs rule: strip_prefix.induct) (auto split: if_splits)

text \<open>
  The lexer. White space is tab, line feed, carriage return and space; the literals are
  \<^verbatim>\<open>true\<close>, \<^verbatim>\<open>false\<close> and \<^verbatim>\<open>null\<close>; any other code unit outside a string is an error.
\<close>

function lexer :: "jsstring \<Rightarrow> token list option" where
  "lexer [] = Some []"
| "lexer (c # cs) =
     (if is_ws c then lexer cs
      else if c = cu CHR ''{'' then cons_token LBrace (lexer cs)
      else if c = cu CHR ''}'' then cons_token RBrace (lexer cs)
      else if c = cu CHR ''['' then cons_token LBracket (lexer cs)
      else if c = cu CHR '']'' then cons_token RBracket (lexer cs)
      else if c = cu CHR '':'' then cons_token Colon (lexer cs)
      else if c = cu CHR '','' then cons_token Comma (lexer cs)
      else if c = QUOTE then
        (case scan_string cs of
           None \<Rightarrow> None
         | Some (s, rest) \<Rightarrow> cons_token (TString s) (lexer rest))
      else if c = cu CHR ''-'' \<or> is_digit c then
        (case scan_number (c # cs) of
           None \<Rightarrow> None
         | Some (n, rest) \<Rightarrow> cons_token (TNumber n) (lexer rest))
      else if c = cu CHR ''t'' then
        (case strip_prefix (utf16 ''rue'') cs of
           None \<Rightarrow> None
         | Some rest \<Rightarrow> cons_token TTrue (lexer rest))
      else if c = cu CHR ''f'' then
        (case strip_prefix (utf16 ''alse'') cs of
           None \<Rightarrow> None
         | Some rest \<Rightarrow> cons_token TFalse (lexer rest))
      else if c = cu CHR ''n'' then
        (case strip_prefix (utf16 ''ull'') cs of
           None \<Rightarrow> None
         | Some rest \<Rightarrow> cons_token TNull (lexer rest))
      else None)"
  by pat_completeness auto
termination
  apply (relation "measure length")
  apply (auto dest: scan_string_length scan_number_length strip_prefix_length)
  done

text \<open>
  Property order of an object (OrdinaryOwnPropertyKeys): array indices, ascending, then
  the other keys in the order in which they were created. An array index is the
  canonical decimal text of an integer below \<open>2 ^ 32 - 1 = 4294967295\<close>.
\<close>

definition decimal :: "jsstring \<Rightarrow> int" where
  "decimal k = foldl (\<lambda>n c. 10 * n + uint (c - cu CHR ''0'')) 0 k"

definition array_index :: "jsstring \<Rightarrow> int option" where
  "array_index k =
     (if k \<noteq> [] \<and> list_all is_digit k \<and> (length k = 1 \<or> hd k \<noteq> cu CHR ''0'')
         \<and> decimal k < 4294967295
      then Some (decimal k) else None)"

fun insert_prop :: "jsstring \<Rightarrow> json \<Rightarrow> (jsstring \<times> json) list \<Rightarrow> (jsstring \<times> json) list" where
  "insert_prop k v [] = [(k, v)]"
| "insert_prop k v ((k', v') # ps) =
     (case array_index k of
        None \<Rightarrow> (k', v') # insert_prop k v ps
      | Some i \<Rightarrow>
          (case array_index k' of
             None \<Rightarrow> (k, v) # (k', v') # ps
           | Some j \<Rightarrow>
               (if j < i then (k', v') # insert_prop k v ps
                else (k, v) # (k', v') # ps)))"

text \<open>
  CreateDataProperty: a key that the object already has keeps its place and takes the
  new value (of duplicate keys in the text, the last value wins).
\<close>

definition set_prop :: "jsstring \<Rightarrow> json \<Rightarrow> (jsstring \<times> json) list \<Rightarrow> (jsstring \<times> json) list" where
  "set_prop k v ps =
     (if k \<in> set (map fst ps)
      then map (\<lambda>(k', v'). if k' = k then (k', v) else (k', v')) ps
      else insert_prop k v ps)"

text \<open>
  The recogniser runs over the tokens with a stack of the containers that are open: an
  array with the elements read so far, an object with its properties so far and the key
  whose value is awaited.
\<close>

datatype frame =
    InArray "json list"
  | InObject "(jsstring \<times> json) list" "jsstring option"

datatype pstate =
    WantValue
  | WantValueOrClose
  | WantKeyOrClose
  | WantKey
  | WantColon
  | WantCommaOrClose
  | Done json

fun deliver :: "json \<Rightarrow> frame list \<Rightarrow> (pstate \<times> frame list) option" where
  "deliver v [] = Some (Done v, [])"
| "deliver v (InArray xs # st) = Some (WantCommaOrClose, InArray (xs @ [v]) # st)"
| "deliver v (InObject ps (Some k) # st) =
     Some (WantCommaOrClose, InObject (set_prop k v ps) None # st)"
| "deliver v (InObject ps None # st) = None"

fun start_value :: "token \<Rightarrow> frame list \<Rightarrow> (pstate \<times> frame list) option" where
  "start_value TNull st = deliver JNull st"
| "start_value TTrue st = deliver (JBool True) st"
| "start_value TFalse st = deliver (JBool False) st"
| "start_value (TNumber n) st = deliver (JNum n) st"
| "start_value (TString s) st = deliver (JStr s) st"
| "start_value LBracket st = Some (WantValueOrClose, InArray [] # st)"
| "start_value LBrace st = Some (WantKeyOrClose, InObject [] None # st)"
| "start_value _ st = None"

fun start_key :: "token \<Rightarrow> frame list \<Rightarrow> (pstate \<times> frame list) option" where
  "start_key (TString k) (InObject ps None # st) = Some (WantColon, InObject ps (Some k) # st)"
| "start_key _ _ = None"

fun close_array :: "frame list \<Rightarrow> (pstate \<times> frame list) option" where
  "close_array (InArray xs # st) = deliver (JArr xs) st"
| "close_array _ = None"

fun close_object :: "frame list \<Rightarrow> (pstate \<times> frame list) option" where
  "close_object (InObject ps None # st) = deliver (JObj ps) st"
| "close_object _ = None"

fun after_comma :: "frame list \<Rightarrow> (pstate \<times> frame list) option" where
  "after_comma (InArray xs # st) = Some (WantValue, InArray xs # st)"
| "after_comma (InObject ps None # st) = Some (WantKey, InObject ps None # st)"
| "after_comma _ = None"

fun step :: "pstate \<Rightarrow> frame list \<Rightarrow> token \<Rightarrow> (pstate \<times> frame list) option" where
  "step WantValue st t = start_value t st"
| "step WantValueOrClose st t = (if t = RBracket then close_array st else start_value t st)"
| "step WantKeyOrClose st t = (if t = RBrace then close_object st else start_key t st)"
| "step WantKey st t = start_key t st"
| "step WantColon st t = (if t = Colon then Some (WantValue, st) else None)"
| "step WantCommaOrClose st t =
     (if t = Comma then after_comma st
      else if t = RBracket then close_array st
      else if t = RBrace then close_object st
      else None)"
| "step (Done v) st t = None"

fun run :: "pstate \<Rightarrow> frame list \<Rightarrow> token list \<Rightarrow> (pstate \<times> frame list) option" where
  "run q st [] = Some (q, st)"
| "run q st (t # ts) =
     (case step q st t of
        None \<Rightarrow> None
      | Some (q', st') \<Rightarrow> run q' st' ts)"

definition JSON_parse :: "jsstring \<Rightarrow> SyntaxError + json" where
  "JSON_parse text =
     (case lexer text of
        None \<Rightarrow> Inl SyntaxError
      | Some ts \<Rightarrow>
          (case run WantValue [] ts of
             Some (Done v, []) \<Rightarrow> Inr v
           | _ \<Rightarrow> Inl SyntaxError))"

section \<open>The built-in \<^verbatim>\<open>JSON.stringify\<close>\<close>

text \<open>
  \<^verbatim>\<open>constructMessages\<close> calls \<^verbatim>\<open>JSON.stringify(schema, null, 2)\<close>. Its argument is
  modelled as plain data: objects (their properties in property order), arrays, strings,
  booleans and \<^verbatim>\<open>null\<close>; the schema of \<^verbatim>\<open>getChatResponse\<close> is made of objects and
  strings only. Numbers, \<^verbatim>\<open>undefined\<close>, functions and \<^verbatim>\<open>toJSON\<close> methods are outside
  this type.
\<close>

datatype js_value =
    VNull
  | VBool bool
  | VString jsstring
  | VArray "js_value list"
  | VObject "(jsstring \<times> js_value) list"

abbreviation LF :: code_unit where "LF \<equiv> 0x0A"

definition hex_digit :: "code_unit \<Rightarrow> code_unit" where
  "hex_digit n = (if n < 10 then cu CHR ''0'' + n else cu CHR ''a'' + (n - 10))"

text \<open>UnicodeEscape: a backslash, \<^verbatim>\<open>u\<close> and four lower-case hexadecimal digits.\<close>

definition unicode_escape :: "code_unit \<Rightarrow> jsstring" where
  "unicode_escape c =
     [BACKSLASH, cu CHR ''u'',
      hex_digit (c div 4096), hex_digit (c div 256 mod 16),
      hex_digit (c div 16 mod 16), hex_digit (c mod 16)]"

definition is_leading_surrogate :: "code_unit \<Rightarrow> bool" where
  "is_leading_surrogate c = (0xD800 \<le> c \<and> c \<le> 0xDBFF)"

definition is_trailing_surrogate :: "code_unit \<Rightarrow> bool" where
  "is_trailing_surrogate c = (0xDC00 \<le> c \<and> c \<le> 0xDFFF)"

text \<open>
  QuoteJSONString, between the quotes: the short escapes, a \<^verbatim>\<open>\u\<close> escape for the other
  code units below 0x20 and for a surrogate that is not part of a pair, and every other
  code unit as it is.
\<close>

fun quote_units :: "jsstring \<Rightarrow> jsstring" where
  "quote_units [] = []"
| "quote_units (c # cs) =
     (if c = 0x08 then [BACKSLASH, cu CHR ''b''] @ quote_units cs
      else if c = 0x09 then [BACKSLASH, cu CHR ''t''] @ quote_units cs
      else if c = 0x0A then [BACKSLASH, cu CHR ''n''] @ quote_units cs
      else if c = 0x0C then [BACKSLASH, cu CHR ''f''] @ quote_units cs
      else if c = 0x0D then [BACKSLASH, cu CHR ''r''] @ quote_units cs
      else if c = QUOTE then [BACKSLASH, QUOTE] @ quote_units cs
      else if c = BACKSLASH then [BACKSLASH, BACKSLASH] @ quote_units cs
      else if c < 0x20 then unicode_escape c @ quote_units cs
      else if is_leading_surrogate c then
        (case cs of
           [] \<Rightarrow> unicode_escape c
         | d # cs1 \<Rightarrow>
             (if is_trailing_surrogate d then c # d # quote_units cs1
              else unicode_escape c @ quote_units cs))
      else if is_trailing_surrogate c then unicode_escape c @ quote_units cs
      else c # quote_units cs)"

definition QuoteJSONString :: "jsstring \<Rightarrow> jsstring" where
  "QuoteJSONString v = [QUOTE] @ quote_units v @ [QUOTE]"

fun join :: "jsstring \<Rightarrow> jsstring list \<Rightarrow> jsstring" where
  "join sep [] = []"
| "join sep [x] = x"
| "join sep (x # y # ys) = x @ sep @ join sep (y # ys)"

text \<open>
  SerializeJSONProperty with SerializeJSONObject and SerializeJSONArray: \<open>gap\<close> is the
  indentation unit and \<open>indent\<close> the indentation of the enclosing container.
\<close>

fun serialize :: "jsstring \<Rightarrow> jsstring \<Rightarrow> js_value \<Rightarrow> jsstring" where
  "serialize gap indent VNull = utf16 ''null''"
| "serialize gap indent (VBool b) = (if b then utf16 ''true'' else utf16 ''false'')"
| "serialize gap indent (VString v) = QuoteJSONString v"
| "serialize gap indent (VArray xs) =
     (if xs = [] then utf16 ''[]''
      else if gap = [] then
        utf16 ''['' @ join (utf16 '','') (map (serialize gap (indent @ gap)) xs) @ utf16 '']''
      else
        utf16 ''['' @ [LF] @ (indent @ gap)
          @ join (utf16 '','' @ [LF] @ (indent @ gap)) (map (serialize gap (indent @ gap)) xs)
          @ [LF] @ indent @ utf16 '']'')"
| "serialize gap indent (VObject ps) =
     (if ps = [] then utf16 ''{}''
      else if gap = [] then
        utf16 ''{''
          @ join (utf16 '','')
              (map (\<lambda>(k, v). QuoteJSONString k @ utf16 '':'' @ serialize gap (indent @ gap) v) ps)
          @ utf16 ''}''
      else
        utf16 ''{'' @ [LF] @ (indent @ gap)
          @ join (utf16 '','' @ [LF] @ (indent @ gap))
              (map (\<lambda>(k, v). QuoteJSONString k @ utf16 '': '' @ serialize gap (indent @ gap) v) ps)
          @ [LF] @ indent @ utf16 ''}'')"

text \<open>\<^verbatim>\<open>JSON.stringify(value, null, space)\<close> for a number \<open>space\<close>: at most ten spaces.\<close>

definition JSON_stringify :: "js_value \<Rightarrow> nat \<Rightarrow> jsstring" where
  "JSON_stringify v space = serialize (replicate (min 10 space) (cu CHR '' '')) [] v"

section \<open>\<^verbatim>\<open>src/index.ts\<close>\<close>

subsection \<open>Data\<close>

text \<open>The interface \<^verbatim>\<open>Message\<close> of the source: a message of the request.\<close>

record Message =
  role :: jsstring
  content :: jsstring

text \<open>
  \<^verbatim>\<open>ChatResponse\<close> is declared by the client library. The source reads it as
  \<^verbatim>\<open>response.message?.content\<close>: the message and its content may each be absent at run
  time; a content that is present is a string, as the library declares it.
\<close>

datatype ReplyMessage = ReplyMessage (reply_role: jsstring) (reply_content: "jsstring option")

text \<open>
  The field \<^verbatim>\<open>message\<close> of the response is named \<open>reply\<close> here, since \<open>message\<close> is
  also the name of a field of the error objects below.
\<close>

record ChatResponse =
  reply :: "ReplyMessage option"

text \<open>
  The class \<^verbatim>\<open>ChatResponseError\<close>: an \<^verbatim>\<open>Error\<close> with \<open>name\<close>, \<open>message\<close> and the
  public \<open>cause\<close>, which the source declares \<^verbatim>\<open>any\<close>. The values that the program
  stores there or logs are: the raw response, the object
  \<^verbatim>\<open>{cause: parseError, rawResponse: jsonString}\<close>, a parsed value, an error object of
  the program, and whatever the client library rejected with (the type \<open>'e\<close>).
\<close>

datatype 'e error_object =
    Error (name: jsstring) (message: jsstring) (cause: "'e any option")
and 'e any =
    RawResponse ChatResponse
  | ParseInfo (parse_cause: SyntaxError) (rawResponse: jsstring)
  | Parsed json
  | OwnError "'e error_object"
  | Rejection 'e

text \<open>The constructor: \<^verbatim>\<open>super(message); this.name = 'ChatResponseError'\<close>.\<close>

definition ChatResponseError :: "jsstring \<Rightarrow> 'e any option \<Rightarrow> 'e error_object" where
  "ChatResponseError msg c = Error (utf16 ''ChatResponseError'') msg c"

text \<open>
  \<^verbatim>\<open>ChatSchema\<close> is an interface: at run time a value of this shape is an object with
  the three properties, in this order when written as in the interface.
\<close>

definition ChatSchema :: "jsstring \<Rightarrow> jsstring \<Rightarrow> jsstring \<Rightarrow> json" where
  "ChatSchema city industry fun =
     JObj [(utf16 ''city'', JStr city), (utf16 ''industry'', JStr industry),
           (utf16 ''fun'', JStr fun)]"

subsection \<open>\<^verbatim>\<open>safeJsonParse\<close>\<close>

text \<open>
  \<^verbatim>\<open>return JSON.parse(jsonString) as ChatSchema\<close>: the type assertion checks nothing at
  run time, so the result is whatever value the text denotes.
\<close>

definition safeJsonParse :: "jsstring \<Rightarrow> 'e error_object + json" where
  "safeJsonParse jsonString =
     (case JSON_parse jsonString of
        Inr v \<Rightarrow> Inr v
      | Inl parseError \<Rightarrow>
          Inl (ChatResponseError (utf16 ''Failed to parse JSON'')
                 (Some (ParseInfo parseError jsonString))))"

subsection \<open>\<^verbatim>\<open>constructMessages\<close>\<close>

definition system_prompt_head :: jsstring where
  "system_prompt_head =
     utf16 ''You are an assistant that provides detailed information about cities. When given a city name, describe the city including its major industry and one fun activity to do there. Ensure the response is strictly in JSON format adhering to the following schema:''
     @ [LF] @ utf16 ''      '' @ [LF]"

definition system_prompt_tail :: jsstring where
  "system_prompt_tail =
     [LF] @ utf16 ''      '' @ [LF]
     @ utf16 ''Do not include any additional text or explanations outside of the JSON object.''"

definition constructMessages :: "jsstring \<Rightarrow> js_value \<Rightarrow> Message list" where
  "constructMessages city schema =
     [\<lparr>role = utf16 ''system'',
       content = system_prompt_head @ JSON_stringify schema 2 @ system_prompt_tail\<rparr>,
      \<lparr>role = utf16 ''user'', content = city\<rparr>]"

subsection \<open>\<^verbatim>\<open>isValidResponse\<close>\<close>

text \<open>
  \<^verbatim>\<open>response.message?.content\<close>: \<^verbatim>\<open>undefined\<close> (here \<open>None\<close>) when the message is
  absent, and the content of the message otherwise.
\<close>

definition optional_content :: "ChatResponse \<Rightarrow> jsstring option" where
  "optional_content response =
     (case reply response of
        None \<Rightarrow> None
      | Some m \<Rightarrow> reply_content m)"

text \<open>
  \<^verbatim>\<open>!!response.message?.content\<close>: \<^verbatim>\<open>undefined\<close> is falsy, and a string is falsy
  exactly when it is empty.
\<close>

definition isValidResponse :: "ChatResponse \<Rightarrow> bool" where
  "isValidResponse response =
     (case optional_content response of
        None \<Rightarrow> False
      | Some c \<Rightarrow> c \<noteq> [])"

subsection \<open>\<^verbatim>\<open>getChatResponse\<close>\<close>

text \<open>
  The client library is a parameter: \<open>Ollama config\<close> is the \<^verbatim>\<open>chat\<close> method of the
  client built for \<open>config\<close>, and its result is the settled promise, \<open>Inl\<close> a rejection
  and \<open>Inr\<close> the response. Building the client is taken not to throw, and the promise
  to settle. The console is the list of the lines written; the result of the function
  is the pair of the console and of the settled promise that the caller awaits.
\<close>

record OllamaConfig =
  host :: jsstring

record ChatRequest =
  model :: jsstring
  messages :: "Message list"

type_synonym 'e chat = "ChatRequest \<Rightarrow> 'e + ChatResponse"

datatype 'e console_line =
    Console_log jsstring "'e any"
  | Console_error jsstring "'e any"

definition schema :: js_value where
  "schema =
     VObject
       [(utf16 ''city'',
         VObject [(utf16 ''type'', VString (utf16 ''string'')),
                  (utf16 ''description'', VString (utf16 ''The city where the user is located.''))]),
        (utf16 ''industry'',
         VObject [(utf16 ''type'', VString (utf16 ''string'')),
                  (utf16 ''description'',
                   VString (utf16 ''The most popular industry in the city. What the city is known for.''))]),
        (utf16 ''fun'',
         VObject [(utf16 ''type'', VString (utf16 ''string'')),
                  (utf16 ''description'',
                   VString (utf16 ''One thing that is fun to do there on a day off.''))])]"

text \<open>
  The body of the \<^verbatim>\<open>try\<close> block after the request, without its console lines: the
  validation of the response and the parsing of its content.
\<close>

definition validate_and_parse :: "ChatResponse \<Rightarrow> 'e error_object + json" where
  "validate_and_parse response =
     (if isValidResponse response
      then safeJsonParse (the (reply_content (the (reply response))))
      else Inl (ChatResponseError (utf16 ''Invalid response structure'')
                  (Some (RawResponse response))))"

text \<open>The \<^verbatim>\<open>catch\<close> block: one console line, and the error that is thrown to the caller.\<close>

definition failure_prefix :: jsstring where
  "failure_prefix = utf16 ''Failed to get chat response for city: ''"

definition rethrow :: "jsstring \<Rightarrow> 'e any \<Rightarrow> 'e console_line list \<times> ('e error_object + json)" where
  "rethrow city error =
     ([Console_error (utf16 ''Error fetching chat response:'') error],
      Inl (ChatResponseError (failure_prefix @ city) (Some error)))"

definition getChatResponse ::
  "(OllamaConfig \<Rightarrow> 'e chat) \<Rightarrow> jsstring \<Rightarrow> 'e console_line list \<times> ('e error_object + json)" where
  "getChatResponse Ollama city =
     (let ollama = Ollama \<lparr>host = utf16 ''http://127.0.0.1:11434''\<rparr>;
          messages = constructMessages city schema
      in case ollama \<lparr>model = utf16 ''gemma:2b'', messages = messages\<rparr> of
           Inl rejected \<Rightarrow> rethrow city (Rejection rejected)
         | Inr response \<Rightarrow>
             (case validate_and_parse response of
                Inr parsedResponse \<Rightarrow>
                  ([Console_log (utf16 ''Raw ChatResponse:'') (RawResponse response),
                    Console_log (utf16 ''Parsed Chat Response:'') (Parsed parsedResponse)],
                   Inr parsedResponse)
              | Inl thrown \<Rightarrow>
                  (case rethrow city (OwnError thrown) of
                     (lines, result) \<Rightarrow>
                       (Console_log (utf16 ''Raw ChatResponse:'') (RawResponse response) # lines,
                        result))))"

section \<open>\<^verbatim>\<open>constructMessages\<close> in a program with state\<close>










section \<open>Notions used by the properties\<close>

text \<open>
  A code unit that a JSON string holds as it is: not the quote, not the backslash and
  not below 0x20.
\<close>

definition plain :: "code_unit \<Rightarrow> bool" where
  "plain c = (c \<noteq> QUOTE \<and> c \<noteq> BACKSLASH \<and> \<not> c < 0x20)"

text \<open>
  The text \<^verbatim>\<open>{"city":"X","industry":"Y","fun":"Z"}\<close> for given \<open>X\<close>, \<open>Y\<close> and \<open>Z\<close>.
\<close>

definition city_info_text :: "jsstring \<Rightarrow> jsstring \<Rightarrow> jsstring \<Rightarrow> jsstring" where
  \<open>city_info_text X Y Z =
     utf16 ''{"city":"'' @ X @ utf16 ''","industry":"'' @ Y @ utf16 ''","fun":"'' @ Z @ utf16 ''"}''\<close>

text \<open>
  Two test doubles for the client library: one resolves every request with a given
  response, the other rejects every request with a given error.
\<close>

definition replying_client :: "ChatResponse \<Rightarrow> OllamaConfig \<Rightarrow> 'e chat" where
  "replying_client response config request = Inr response"

definition rejecting_client :: "'e \<Rightarrow> OllamaConfig \<Rightarrow> 'e chat" where
  "rejecting_client rejected config request = Inl rejected"

text \<open>The configuration and the request that \<^verbatim>\<open>getChatResponse\<close> hands to the client.\<close>

definition client_config :: OllamaConfig where
  "client_config = \<lparr>host = utf16 ''http://127.0.0.1:11434''\<rparr>"

definition sent_request :: "jsstring \<Rightarrow> ChatRequest" where
  "sent_request city = \<lparr>model = utf16 ''gemma:2b'', messages = constructMessages city schema\<rparr>"

text \<open>
  The error that a call of \<^verbatim>\<open>getChatResponse\<close> throws to its caller, if any, and the
  city that the message of such an error names.
\<close>

definition thrown_to_caller ::
  "'e console_line list \<times> ('e error_object + json) \<Rightarrow> 'e error_object option" where
  "thrown_to_caller outcome = (case snd outcome of Inl e \<Rightarrow> Some e | Inr v \<Rightarrow> None)"

definition queried_city :: "'e error_object \<Rightarrow> jsstring" where
  "queried_city e = drop (length failure_prefix) (message e)"


section \<open>Properties\<close>

subsection \<open>Auxiliary facts\<close>

lemma JSON_parse_empty: "JSON_parse [] = Inl SyntaxError"
  by (simp add: JSON_parse_def)

lemma getChatResponse_unfold:
  "snd (getChatResponse Ollama city) =
     (case Ollama client_config (sent_request city) of
        Inl rejected \<Rightarrow>
          Inl (ChatResponseError (failure_prefix @ city) (Some (Rejection rejected)))
      | Inr response \<Rightarrow>
          (case validate_and_parse response of
             Inl inner \<Rightarrow>
               Inl (ChatResponseError (failure_prefix @ city) (Some (OwnError inner)))
           | Inr v \<Rightarrow> Inr v))"
  by (simp add: getChatResponse_def client_config_def sent_request_def rethrow_def
      split: sum.splits)

lemma failure_prefix_text:
  "failure_prefix @ utf16 s = utf16 (''Failed to get chat response for city: '' @ s)"
  by (simp add: failure_prefix_def utf16_def)

lemma utf16_Cons_nonempty: "utf16 (c # s) \<noteq> []"
  by (simp add: utf16_def)

lemma syntax_error_eq: "((e :: SyntaxError) = SyntaxError) = True"
  by (cases e) simp

lemma malformed_example: "JSON_parse (utf16 ''{city: London}'') = Inl SyntaxError"
  by code_simp

lemma validate_and_parse_cases:
  "validate_and_parse response =
     (if isValidResponse response
      then (case JSON_parse (the (optional_content response)) of
              Inr v \<Rightarrow> Inr v
            | Inl parseError \<Rightarrow>
                Inl (Error (utf16 ''ChatResponseError'') (utf16 ''Failed to parse JSON'')
                       (Some (ParseInfo parseError (the (optional_content response))))))
      else Inl (Error (utf16 ''ChatResponseError'') (utf16 ''Invalid response structure'')
                  (Some (RawResponse response))))"
  by (auto simp: validate_and_parse_def isValidResponse_def optional_content_def
      safeJsonParse_def ChatResponseError_def split: option.splits sum.splits)

lemma array_example: "JSON_parse (utf16 ''[1, 2]'') = Inr (JArr [JNum (utf16 ''1''), JNum (utf16 ''2'')])"
  by code_simp

lemma shapeless_examples:
  \<open>JSON_parse (utf16 ''{}'') = Inr (JObj [])\<close>
  \<open>JSON_parse (utf16 ''{"city":null}'') = Inr (JObj [(utf16 ''city'', JNull)])\<close>
  by code_simp+

lemma blank_example: "JSON_parse (utf16 ''   '') = Inl SyntaxError"
  by code_simp

lemma prose_example: "JSON_parse (utf16 ''London is a city.'') = Inl SyntaxError"
  by code_simp

lemma schema_text_mentions_industry:
  \<open>sublist (utf16 ''"industry"'') (JSON_stringify schema 2)\<close>
  by code_simp




subsection \<open>Parsing a well-formed answer\<close>

lemma scan_string_plain:
  "list_all plain s \<Longrightarrow> scan_string (s @ QUOTE # rest) = Some (s, rest)"
  by (induction s) (auto simp: plain_def prepend_def)

lemma lexer_city_info:
  assumes "list_all plain X" "list_all plain Y" "list_all plain Z"
  shows "lexer (city_info_text X Y Z) =
    Some [LBrace, TString (utf16 ''city''), Colon, TString X, Comma,
          TString (utf16 ''industry''), Colon, TString Y, Comma,
          TString (utf16 ''fun''), Colon, TString Z, RBrace]"
  using assms
  by (simp add: city_info_text_def utf16_def is_ws_def is_digit_def cons_token_def
      prepend_def scan_string_plain)

lemma run_city_info:
  "run WantValue []
     [LBrace, TString (utf16 ''city''), Colon, TString X, Comma,
      TString (utf16 ''industry''), Colon, TString Y, Comma,
      TString (utf16 ''fun''), Colon, TString Z, RBrace]
   = Some (Done (ChatSchema X Y Z), [])"
  by (simp add: ChatSchema_def set_prop_def array_index_def utf16_def is_digit_def)

lemma JSON_parse_city_info:
  assumes "list_all plain X" "list_all plain Y" "list_all plain Z"
  shows "JSON_parse (city_info_text X Y Z) = Inr (ChatSchema X Y Z)"
  by (simp add: JSON_parse_def lexer_city_info [OF assms] run_city_info del: run.simps)

lemma city_info_text_nonempty: "city_info_text X Y Z \<noteq> []"
  by (simp add: city_info_text_def utf16_def)

text \<open>
  C1. For every raw response whose message content is the text
  \<^verbatim>\<open>{"city":"X","industry":"Y","fun":"Z"}\<close>, where \<open>X\<close>, \<open>Y\<close> and \<open>Z\<close> are texts that
  JSON holds unescaped, the validate-and-parse step succeeds and returns exactly the
  object with the properties \<open>city = X\<close>, \<open>industry = Y\<close> and \<open>fun = Z\<close>; no error
  is raised.
\<close>

theorem validate_and_parse_city_info:
  assumes "reply response = Some m"
    and "reply_content m = Some (city_info_text X Y Z)"
    and "list_all plain X" and "list_all plain Y" and "list_all plain Z"
  shows "validate_and_parse response = Inr (ChatSchema X Y Z)"
  using assms(1,2)
  by (simp add: validate_and_parse_def isValidResponse_def optional_content_def
      safeJsonParse_def city_info_text_nonempty JSON_parse_city_info [OF assms(3-5)])

text \<open>C1 at the literal text, with \<open>X\<close>, \<open>Y\<close> and \<open>Z\<close> the letters themselves.\<close>

theorem validate_and_parse_city_info_witness:
  \<open>(validate_and_parse
      \<lparr>reply = Some (ReplyMessage (utf16 ''assistant'')
                 (Some (utf16 ''{"city":"X","industry":"Y","fun":"Z"}'')))\<rparr>
      :: unit error_object + json)
   = Inr (JObj [(utf16 ''city'', JStr (utf16 ''X'')),
                (utf16 ''industry'', JStr (utf16 ''Y'')),
                (utf16 ''fun'', JStr (utf16 ''Z''))])\<close>
  using validate_and_parse_city_info
    [of "\<lparr>reply = Some (ReplyMessage (utf16 ''assistant'')
                 (Some (city_info_text (utf16 ''X'') (utf16 ''Y'') (utf16 ''Z''))))\<rparr>"
        "ReplyMessage (utf16 ''assistant'')
                 (Some (city_info_text (utf16 ''X'') (utf16 ''Y'') (utf16 ''Z'')))"
        "utf16 ''X''" "utf16 ''Y''" "utf16 ''Z''"]
  by (simp add: city_info_text_def ChatSchema_def utf16_def plain_def)

subsection \<open>The messages of a request\<close>

text \<open>
  C2. For every city, the empty one included, and every schema, \<^verbatim>\<open>constructMessages\<close>
  returns exactly two messages. The first has the role \<^verbatim>\<open>system\<close> and a content that
  contains the serialized schema; for the schema of the program this content contains
  the text \<^verbatim>\<open>"industry"\<close>. The second has the role \<^verbatim>\<open>user\<close> and the city as its content,
  unchanged and unvalidated.
\<close>

theorem constructMessages_two_messages:
  \<open>length (constructMessages city sch) = 2
   \<and> role (constructMessages city sch ! 0) = utf16 ''system''
   \<and> sublist (JSON_stringify sch 2) (content (constructMessages city sch ! 0))
   \<and> sublist (utf16 ''"industry"'') (content (constructMessages city schema ! 0))
   \<and> constructMessages city sch ! 1 = \<lparr>role = utf16 ''user'', content = city\<rparr>\<close>
proof -
  have "sublist (JSON_stringify schema 2)
          (system_prompt_head @ JSON_stringify schema 2 @ system_prompt_tail)"
    by (rule sublist_appendI)
  with schema_text_mentions_industry
  have \<open>sublist (utf16 ''"industry"'')
          (system_prompt_head @ JSON_stringify schema 2 @ system_prompt_tail)\<close>
    by (rule sublist_order.order_trans)
  then show ?thesis
    by (simp add: constructMessages_def)
qed

text \<open>
  C2 at the cities \<^verbatim>\<open>Paris\<close> and the empty text.
\<close>

theorem constructMessages_two_messages_witness:
  \<open>constructMessages (utf16 ''Paris'') schema ! 1 = \<lparr>role = utf16 ''user'', content = utf16 ''Paris''\<rparr>
   \<and> constructMessages [] schema ! 1 = \<lparr>role = utf16 ''user'', content = []\<rparr>
   \<and> length (constructMessages [] schema) = 2\<close>
  using constructMessages_two_messages [of "utf16 ''Paris''" schema]
    constructMessages_two_messages [of "[]" schema]
  by simp

subsection \<open>Responses without content\<close>

text \<open>
  C3. For every raw response whose message is absent or whose message content is the
  empty text, the validation fails with the error \<^verbatim>\<open>Invalid response structure\<close>, whose
  cause is the raw response.
\<close>

theorem validate_and_parse_invalid_structure:
  assumes "reply response = None \<or> optional_content response = Some []"
  shows "validate_and_parse response =
           Inl (Error (utf16 ''ChatResponseError'') (utf16 ''Invalid response structure'')
                  (Some (RawResponse response)))"
  using assms
  by (auto simp: validate_and_parse_def isValidResponse_def optional_content_def
      ChatResponseError_def)

text \<open>
  C3 at a response without a message and at one with an empty content.
\<close>

theorem validate_and_parse_invalid_structure_witness:
  "(validate_and_parse \<lparr>reply = None\<rparr> :: unit error_object + json) =
     Inl (Error (utf16 ''ChatResponseError'') (utf16 ''Invalid response structure'')
            (Some (RawResponse \<lparr>reply = None\<rparr>)))
   \<and> (validate_and_parse \<lparr>reply = Some (ReplyMessage (utf16 ''assistant'') (Some []))\<rparr>
        :: unit error_object + json) =
     Inl (Error (utf16 ''ChatResponseError'') (utf16 ''Invalid response structure'')
            (Some (RawResponse \<lparr>reply = Some (ReplyMessage (utf16 ''assistant'') (Some []))\<rparr>)))"
  using validate_and_parse_invalid_structure [of "\<lparr>reply = None\<rparr>"]
    validate_and_parse_invalid_structure
      [of "\<lparr>reply = Some (ReplyMessage (utf16 ''assistant'') (Some []))\<rparr>"]
  by (simp add: optional_content_def)

subsection \<open>Texts that are not an object\<close>

text \<open>
  C4, as stated, fails: the texts \<^verbatim>\<open>42\<close> and \<^verbatim>\<open>"London"\<close> are valid JSON and not JSON
  objects, and \<^verbatim>\<open>safeJsonParse\<close> returns their values instead of failing.
\<close>

theorem safeJsonParse_non_object_counterexample:
  \<open>JSON_parse (utf16 ''42'') = Inr (JNum (utf16 ''42''))
   \<and> (safeJsonParse (utf16 ''42'') :: unit error_object + json) = Inr (JNum (utf16 ''42''))
   \<and> JSON_parse (utf16 ''"London"'') = Inr (JStr (utf16 ''London''))
   \<and> (safeJsonParse (utf16 ''"London"'') :: unit error_object + json) = Inr (JStr (utf16 ''London''))\<close>
  by code_simp

text \<open>
  C4, amended. For every content text that is malformed JSON, the parse step fails with
  the error \<^verbatim>\<open>Failed to parse JSON\<close>, whose cause holds the original parse exception
  and the raw text; every text that is valid JSON, an object or not, is parsed without
  an error and its value is returned.
\<close>

theorem safeJsonParse_outcome:
  "(JSON_parse text = Inl parseError \<longrightarrow>
      (safeJsonParse text :: 'e error_object + json) =
        Inl (Error (utf16 ''ChatResponseError'') (utf16 ''Failed to parse JSON'')
               (Some (ParseInfo parseError text))))
   \<and> (JSON_parse text = Inr v \<longrightarrow> (safeJsonParse text :: 'e error_object + json) = Inr v)"
  by (simp add: safeJsonParse_def ChatResponseError_def)

text \<open>
  C4, amended, at the malformed text \<^verbatim>\<open>{city: London}\<close> and at the array
  \<^verbatim>\<open>[1, 2]\<close>.
\<close>

theorem safeJsonParse_outcome_witness:
  "JSON_parse (utf16 ''{city: London}'') = Inl SyntaxError
   \<and> (safeJsonParse (utf16 ''{city: London}'') :: unit error_object + json) =
        Inl (Error (utf16 ''ChatResponseError'') (utf16 ''Failed to parse JSON'')
               (Some (ParseInfo SyntaxError (utf16 ''{city: London}''))))
   \<and> JSON_parse (utf16 ''[1, 2]'') = Inr (JArr [JNum (utf16 ''1''), JNum (utf16 ''2'')])
   \<and> (safeJsonParse (utf16 ''[1, 2]'') :: unit error_object + json) =
        Inr (JArr [JNum (utf16 ''1''), JNum (utf16 ''2'')])"
  using safeJsonParse_outcome [where 'e = unit, of "utf16 ''{city: London}''" SyntaxError]
    safeJsonParse_outcome [where 'e = unit, of "utf16 ''[1, 2]''" _ "JArr [JNum (utf16 ''1''), JNum (utf16 ''2'')]"]
    malformed_example array_example
  by simp

subsection \<open>What the caller can tell from an error\<close>

text \<open>
  C5, as stated, fails: for the city \<^verbatim>\<open>London\<close>, a response without a message, a
  response with the malformed content \<^verbatim>\<open>{city: London}\<close> and a rejected request deliver
  errors with the same name and the same message, so neither field tells the three
  kinds apart.
\<close>

theorem error_name_counterexample:
  "map_option name (thrown_to_caller
      (getChatResponse (replying_client \<lparr>reply = None\<rparr> :: OllamaConfig \<Rightarrow> string chat)
         (utf16 ''London'')))
     = Some (utf16 ''ChatResponseError'')
   \<and> map_option name (thrown_to_caller
      (getChatResponse
         (replying_client
            \<lparr>reply = Some (ReplyMessage (utf16 ''assistant'') (Some (utf16 ''{city: London}'')))\<rparr>
          :: OllamaConfig \<Rightarrow> string chat)
         (utf16 ''London'')))
     = Some (utf16 ''ChatResponseError'')
   \<and> map_option name (thrown_to_caller
      (getChatResponse (rejecting_client ''ECONNREFUSED'') (utf16 ''London'')))
     = Some (utf16 ''ChatResponseError'')
   \<and> map_option message (thrown_to_caller
      (getChatResponse (replying_client \<lparr>reply = None\<rparr> :: OllamaConfig \<Rightarrow> string chat)
         (utf16 ''London'')))
     = Some (utf16 ''Failed to get chat response for city: London'')
   \<and> map_option message (thrown_to_caller
      (getChatResponse
         (replying_client
            \<lparr>reply = Some (ReplyMessage (utf16 ''assistant'') (Some (utf16 ''{city: London}'')))\<rparr>
          :: OllamaConfig \<Rightarrow> string chat)
         (utf16 ''London'')))
     = Some (utf16 ''Failed to get chat response for city: London'')
   \<and> map_option message (thrown_to_caller
      (getChatResponse (rejecting_client ''ECONNREFUSED'') (utf16 ''London'')))
     = Some (utf16 ''Failed to get chat response for city: London'')"
  by (simp add: thrown_to_caller_def getChatResponse_unfold replying_client_def
      rejecting_client_def validate_and_parse_cases isValidResponse_def optional_content_def
      malformed_example ChatResponseError_def failure_prefix_text)

text \<open>
  C5, amended. Every error delivered to the caller has the name
  \<^verbatim>\<open>ChatResponseError\<close>, the message \<^verbatim>\<open>Failed to get chat response for city: \<close> followed
  by the city, and a cause; the three kinds share this shape and differ in the cause
  only: the transport error itself for a failed request, and otherwise an inner
  \<^verbatim>\<open>ChatResponseError\<close> whose message is \<^verbatim>\<open>Invalid response structure\<close> for a response
  without content and \<^verbatim>\<open>Failed to parse JSON\<close> for a content that does not parse.
\<close>

theorem delivered_error_kinds:
  assumes "snd (getChatResponse Ollama city) = Inl e"
  shows "name e = utf16 ''ChatResponseError''
    \<and> message e = utf16 ''Failed to get chat response for city: '' @ city
    \<and> (case Ollama client_config (sent_request city) of
          Inl rejected \<Rightarrow> cause e = Some (Rejection rejected)
        | Inr response \<Rightarrow>
            cause e =
              Some (OwnError
                (if isValidResponse response
                 then Error (utf16 ''ChatResponseError'') (utf16 ''Failed to parse JSON'')
                        (Some (ParseInfo SyntaxError (the (optional_content response))))
                 else Error (utf16 ''ChatResponseError'') (utf16 ''Invalid response structure'')
                        (Some (RawResponse response)))))"
  using assms
  by (auto simp: getChatResponse_unfold validate_and_parse_cases ChatResponseError_def
      failure_prefix_def syntax_error_eq split: sum.splits if_splits)

text \<open>
  C5, amended, at a request for \<^verbatim>\<open>London\<close> that is rejected.
\<close>

theorem delivered_error_kinds_witness:
  "snd (getChatResponse (rejecting_client ''ECONNREFUSED'') (utf16 ''London''))
     = Inl (Error (utf16 ''ChatResponseError'')
              (utf16 ''Failed to get chat response for city: London'')
              (Some (Rejection ''ECONNREFUSED'')))
   \<and> cause (Error (utf16 ''ChatResponseError'')
              (utf16 ''Failed to get chat response for city: London'')
              (Some (Rejection ''ECONNREFUSED''))) = Some (Rejection ''ECONNREFUSED'')"
  using delivered_error_kinds [of "rejecting_client ''ECONNREFUSED''" "utf16 ''London''"
      "Error (utf16 ''ChatResponseError'')
              (utf16 ''Failed to get chat response for city: London'')
              (Some (Rejection ''ECONNREFUSED''))"]
  by (simp add: getChatResponse_unfold rejecting_client_def ChatResponseError_def
      failure_prefix_text)

subsection \<open>Failures of the transport\<close>

text \<open>
  C6. For every city and every transport failure, the caller receives an error whose
  cause is the transport error and from whose message the city is recovered.
\<close>

theorem request_failure_wraps_transport_error:
  assumes "Ollama client_config (sent_request city) = Inl rejected"
  shows "thrown_to_caller (getChatResponse Ollama city) =
           Some (Error (utf16 ''ChatResponseError'')
                   (utf16 ''Failed to get chat response for city: '' @ city)
                   (Some (Rejection rejected)))
    \<and> map_option cause (thrown_to_caller (getChatResponse Ollama city))
         = Some (Some (Rejection rejected))
    \<and> map_option queried_city (thrown_to_caller (getChatResponse Ollama city)) = Some city"
  using assms
  by (simp add: thrown_to_caller_def getChatResponse_unfold ChatResponseError_def
      queried_city_def failure_prefix_def)

text \<open>
  C6 at a request for \<^verbatim>\<open>London\<close> that is rejected with \<^verbatim>\<open>ECONNREFUSED\<close>.
\<close>

theorem request_failure_wraps_transport_error_witness:
  "rejecting_client ''ECONNREFUSED'' client_config (sent_request (utf16 ''London''))
     = Inl ''ECONNREFUSED''
   \<and> map_option cause
        (thrown_to_caller (getChatResponse (rejecting_client ''ECONNREFUSED'') (utf16 ''London'')))
       = Some (Some (Rejection ''ECONNREFUSED''))
   \<and> map_option queried_city
        (thrown_to_caller (getChatResponse (rejecting_client ''ECONNREFUSED'') (utf16 ''London'')))
       = Some (utf16 ''London'')"
  using request_failure_wraps_transport_error
    [of "rejecting_client ''ECONNREFUSED''" "utf16 ''London''" "''ECONNREFUSED''"]
  by (auto simp: rejecting_client_def)

subsection \<open>Determinism of the prompt\<close>




subsection \<open>No check of the shape\<close>

text \<open>
  C8. For every content that parses as a JSON object, the parse step returns this object
  as it is, whatever its properties are: no shape is checked after parsing.
\<close>

theorem parsed_object_accepted_as_is:
  assumes "optional_content response = Some text"
    and "JSON_parse text = Inr (JObj props)"
  shows "(safeJsonParse text :: 'e error_object + json) = Inr (JObj props)
    \<and> (validate_and_parse response :: 'e error_object + json) = Inr (JObj props)"
proof -
  from assms(2) have "text \<noteq> []"
    by (auto simp: JSON_parse_empty)
  with assms show ?thesis
    by (simp add: validate_and_parse_cases isValidResponse_def safeJsonParse_def)
qed

text \<open>
  C8 at the object without properties and at an object whose only property is a
  \<^verbatim>\<open>null\<close> city.
\<close>

theorem parsed_object_accepted_as_is_witness:
  \<open>(validate_and_parse \<lparr>reply = Some (ReplyMessage (utf16 ''assistant'') (Some (utf16 ''{}'')))\<rparr>
      :: unit error_object + json) = Inr (JObj [])
   \<and> (validate_and_parse
        \<lparr>reply = Some (ReplyMessage (utf16 ''assistant'') (Some (utf16 ''{"city":null}'')))\<rparr>
      :: unit error_object + json) = Inr (JObj [(utf16 ''city'', JNull)])\<close>
  using parsed_object_accepted_as_is
      [where 'e = unit, of "\<lparr>reply = Some (ReplyMessage (utf16 ''assistant'') (Some (utf16 ''{}'')))\<rparr>"
          "utf16 ''{}''" "[]"]
    parsed_object_accepted_as_is
      [where 'e = unit, of \<open>\<lparr>reply = Some (ReplyMessage (utf16 ''assistant'') (Some (utf16 ''{"city":null}'')))\<rparr>\<close>
          \<open>utf16 ''{"city":null}''\<close> "[(utf16 ''city'', JNull)]"]
    shapeless_examples
  by (simp add: optional_content_def)

subsection \<open>The error that reaches the caller\<close>

text \<open>
  C9. For every city and every error that arises inside \<^verbatim>\<open>getChatResponse\<close>, from the
  transport, from the validation or from the parsing, the error that reaches the caller
  is a \<^verbatim>\<open>ChatResponseError\<close> with the message
  \<^verbatim>\<open>Failed to get chat response for city: \<close> followed by the city, and its cause is the
  original error; without an error the parsed value is returned.
\<close>

theorem every_failure_is_wrapped:
  "snd (getChatResponse Ollama city) =
     (case Ollama client_config (sent_request city) of
        Inl rejected \<Rightarrow>
          Inl (Error (utf16 ''ChatResponseError'')
                 (utf16 ''Failed to get chat response for city: '' @ city)
                 (Some (Rejection rejected)))
      | Inr response \<Rightarrow>
          (case validate_and_parse response of
             Inl inner \<Rightarrow>
               Inl (Error (utf16 ''ChatResponseError'')
                      (utf16 ''Failed to get chat response for city: '' @ city)
                      (Some (OwnError inner)))
           | Inr v \<Rightarrow> Inr v))"
  by (simp add: getChatResponse_unfold ChatResponseError_def failure_prefix_def
      split: sum.splits)

text \<open>
  C9 at a response without a message and at a response with the malformed content
  \<^verbatim>\<open>{city: London}\<close>.
\<close>

theorem every_failure_is_wrapped_witness:
  "snd (getChatResponse (replying_client \<lparr>reply = None\<rparr> :: OllamaConfig \<Rightarrow> string chat)
         (utf16 ''London''))
   = Inl (Error (utf16 ''ChatResponseError'')
            (utf16 ''Failed to get chat response for city: London'')
            (Some (OwnError
               (Error (utf16 ''ChatResponseError'') (utf16 ''Invalid response structure'')
                  (Some (RawResponse \<lparr>reply = None\<rparr>))))))
   \<and> snd (getChatResponse
         (replying_client
            \<lparr>reply = Some (ReplyMessage (utf16 ''assistant'') (Some (utf16 ''{city: London}'')))\<rparr>
          :: OllamaConfig \<Rightarrow> string chat)
         (utf16 ''London''))
   = Inl (Error (utf16 ''ChatResponseError'')
            (utf16 ''Failed to get chat response for city: London'')
            (Some (OwnError
               (Error (utf16 ''ChatResponseError'') (utf16 ''Failed to parse JSON'')
                  (Some (ParseInfo SyntaxError (utf16 ''{city: London}'')))))))"
proof -
  have unparsable:
    "(validate_and_parse
        \<lparr>reply = Some (ReplyMessage (utf16 ''assistant'') (Some (utf16 ''{city: London}'')))\<rparr>
      :: string error_object + json)
     = Inl (Error (utf16 ''ChatResponseError'') (utf16 ''Failed to parse JSON'')
              (Some (ParseInfo SyntaxError (utf16 ''{city: London}''))))"
    by (simp add: validate_and_parse_cases isValidResponse_def optional_content_def
        malformed_example utf16_Cons_nonempty)
  have absent:
    "(validate_and_parse \<lparr>reply = None\<rparr> :: string error_object + json)
     = Inl (Error (utf16 ''ChatResponseError'') (utf16 ''Invalid response structure'')
              (Some (RawResponse \<lparr>reply = None\<rparr>)))"
    by (simp add: validate_and_parse_cases isValidResponse_def optional_content_def)
  show ?thesis
    using every_failure_is_wrapped
        [of "replying_client \<lparr>reply = None\<rparr> :: OllamaConfig \<Rightarrow> string chat"
            "utf16 ''London''"]
      every_failure_is_wrapped
        [of "replying_client
              \<lparr>reply = Some (ReplyMessage (utf16 ''assistant'') (Some (utf16 ''{city: London}'')))\<rparr>
             :: OllamaConfig \<Rightarrow> string chat"
            "utf16 ''London''"]
    by (simp add: replying_client_def unparsable absent
        failure_prefix_text [unfolded failure_prefix_def])
qed

subsection \<open>When the validation fails\<close>

text \<open>
  C10. The validation fails with the error \<^verbatim>\<open>Invalid response structure\<close> exactly when
  the message or its content is absent or the content is the empty text; for every
  non-empty content the validation succeeds and the result is that of parsing the
  content.
\<close>

theorem invalid_structure_iff_no_content:
  "((validate_and_parse response :: 'e error_object + json) =
      Inl (Error (utf16 ''ChatResponseError'') (utf16 ''Invalid response structure'')
             (Some (RawResponse response)))
    \<longleftrightarrow> reply response = None \<or> optional_content response = None
        \<or> optional_content response = Some [])
   \<and> (optional_content response = Some text \<and> text \<noteq> [] \<longrightarrow>
        isValidResponse response
        \<and> (validate_and_parse response :: 'e error_object + json) = safeJsonParse text)"
  by (auto simp: validate_and_parse_def isValidResponse_def optional_content_def
      safeJsonParse_def ChatResponseError_def utf16_def split: option.splits sum.splits)

text \<open>
  C10 at a content of three spaces, at a content that is prose, and at a message
  without content.
\<close>

theorem invalid_structure_iff_no_content_witness:
  "(validate_and_parse \<lparr>reply = Some (ReplyMessage (utf16 ''assistant'') (Some (utf16 ''   '')))\<rparr>
      :: unit error_object + json)
     = Inl (Error (utf16 ''ChatResponseError'') (utf16 ''Failed to parse JSON'')
              (Some (ParseInfo SyntaxError (utf16 ''   ''))))
   \<and> (validate_and_parse
        \<lparr>reply = Some (ReplyMessage (utf16 ''assistant'') (Some (utf16 ''London is a city.'')))\<rparr>
      :: unit error_object + json)
     = Inl (Error (utf16 ''ChatResponseError'') (utf16 ''Failed to parse JSON'')
              (Some (ParseInfo SyntaxError (utf16 ''London is a city.''))))
   \<and> (validate_and_parse \<lparr>reply = Some (ReplyMessage (utf16 ''assistant'') None)\<rparr>
      :: unit error_object + json)
     = Inl (Error (utf16 ''ChatResponseError'') (utf16 ''Invalid response structure'')
              (Some (RawResponse \<lparr>reply = Some (ReplyMessage (utf16 ''assistant'') None)\<rparr>)))"
  using invalid_structure_iff_no_content
      [where 'e = unit, of "\<lparr>reply = Some (ReplyMessage (utf16 ''assistant'') (Some (utf16 ''   '')))\<rparr>"
          "utf16 ''   ''"]
    invalid_structure_iff_no_content
      [where 'e = unit, of "\<lparr>reply = Some (ReplyMessage (utf16 ''assistant'') (Some (utf16 ''London is a city.'')))\<rparr>"
          "utf16 ''London is a city.''"]
    invalid_structure_iff_no_content
      [where 'e = unit, of "\<lparr>reply = Some (ReplyMessage (utf16 ''assistant'') None)\<rparr>"]
    blank_example prose_example
  by (simp add: optional_content_def safeJsonParse_def ChatResponseError_def utf16_def)

end
